theory Spec2Isabelle
  imports Complex_Main
begin

section \<open>Data model (src/src/types/index.ts, src/src/scoring/scoringEngine.ts)\<close>

text \<open>
  TypeScript \<^verbatim>\<open>number\<close>s that hold scores, leg counts and dart counts are modelled as
  \<^typ>\<open>int\<close>; the 3-dart average, which is a quotient, is a \<^typ>\<open>real\<close>.  Optional fields
  (\<^verbatim>\<open>sets?\<close>, \<^verbatim>\<open>highest_checkout?\<close>, \<^verbatim>\<open>message?\<close>, ...) and \<^verbatim>\<open>number | null\<close> are
  \<^typ>\<open>'a option\<close>.  The field \<^verbatim>\<open>id\<close> of \<^verbatim>\<open>PlayerState\<close> is called \<open>id_opt\<close>, since
  \<^term>\<open>id\<close> is the identity function of HOL.
\<close>

datatype MatchType = first_to | best_of

record MatchConfig =
  startingScore :: int
  matchType :: MatchType
  targetLegs :: int
  targetSets :: "int option"
  doubleIn :: "bool option"
  doubleOut :: "bool option"

record MatchStats =
  scores_65_plus :: int
  scores_90_plus :: int
  scores_100_plus :: int
  scores_140_plus :: int
  scores_170_plus :: int
  scores_180 :: int
  best_leg :: "int option"
  average :: real
  highest_checkout :: "int option"
  visit_history :: "int list option"
  playerName :: "string option"

record PlayerState =
  id_opt :: "string option"
  name :: string
  score :: int
  legs :: int
  sets :: "int option"
  history :: "int list"
  matchHistory :: "int list"
  stats :: MatchStats
  dartsThrown :: int

record ThrowResult =
  success :: bool
  newScore :: int
  isBust :: bool
  isLegWon :: bool
  isMatchWon :: bool
  message :: "string option"

text \<open>The object \<^verbatim>\<open>{ player, result }\<close> returned by \<^verbatim>\<open>applyThrow\<close>.\<close>

record ApplyThrowResult =
  player :: PlayerState
  result :: ThrowResult

text \<open>
  An instance of the class \<^verbatim>\<open>DartsScoringEngine\<close>: its two private read-only fields.
\<close>

record DartsScoringEngine =
  config :: MatchConfig
  legsNeeded :: int

section \<open>Constants (src/src/constants/index.ts)\<close>

definition MAX_SCORE :: int where
  "MAX_SCORE = 180"

definition INITIAL_MATCH_STATS :: MatchStats where
  "INITIAL_MATCH_STATS =
     \<lparr> scores_65_plus = 0, scores_90_plus = 0, scores_100_plus = 0,
       scores_140_plus = 0, scores_170_plus = 0, scores_180 = 0,
       best_leg = None, average = 0,
       highest_checkout = None, visit_history = None, playerName = None \<rparr>"

text \<open>
  \<^verbatim>\<open>VALID_CHECKOUTS\<close> is a \<^verbatim>\<open>Set\<close> (written here line by line as in the source),
  \<^verbatim>\<open>INVALID_CHECKOUTS\<close> a frozen array and
  \<^verbatim>\<open>CHECKOUT_TABLE\<close> a frozen object whose keys are the remaining scores: an association
  list here, read with \<^const>\<open>map_of\<close>.
\<close>

definition VALID_CHECKOUTS :: "int set" where
  "VALID_CHECKOUTS = set
     ( [2, 3, 4, 5, 6, 7, 8, 9, 10, 11, 12, 13, 14, 15, 16, 17, 18, 19, 20]
     @ [21, 22, 23, 24, 25, 26, 27, 28, 29, 30, 31, 32, 33, 34, 35, 36, 37, 38, 39, 40]
     @ [41, 42, 43, 44, 45, 46, 47, 48, 49, 50, 51, 52, 53, 54, 55, 56, 57, 58, 60]
     @ [61, 62, 63, 64, 65, 66, 67, 68, 70, 71, 72, 73, 74, 75, 76, 77, 78, 79, 80]
     @ [81, 82, 83, 84, 85, 86, 87, 88, 89, 90, 91, 92, 93, 94, 95, 96, 97, 98, 100]
     @ [101, 102, 103, 104, 105, 106, 107, 108, 110, 111, 112, 113, 114, 115, 116, 117, 118, 119, 120]
     @ [121, 122, 123, 124, 125, 126, 127, 128, 129, 130, 131, 132, 133, 134, 135, 136, 137, 138, 139, 140]
     @ [141, 142, 143, 144, 145, 146, 147, 148, 149, 150, 151, 152, 153, 154, 155, 156, 157, 158, 160]
     @ [161, 164, 167, 170] )"

definition INVALID_CHECKOUTS :: "int list" where
  "INVALID_CHECKOUTS = [159, 162, 163, 165, 166, 168, 169]"

definition CHECKOUT_TABLE :: "(int \<times> string) list" where
  "CHECKOUT_TABLE =
     [ (170, ''T20 T20 Bull''), (167, ''T20 T19 Bull''), (164, ''T20 T18 Bull''),
       (161, ''T20 T17 Bull''), (160, ''T20 T20 D20''), (158, ''T20 T20 D19''),
       (157, ''T20 T19 D20''), (156, ''T20 T20 D18''), (155, ''T20 T19 D19''),
       (154, ''T20 T18 D20''), (153, ''T20 T19 D18''), (152, ''T20 T20 D16''),
       (151, ''T20 T17 D20''), (150, ''T20 T18 D18''), (148, ''T20 T20 D14''),
       (147, ''T20 T17 D18''), (146, ''T20 T18 D16''), (145, ''T20 T15 D20''),
       (144, ''T20 T20 D12''), (143, ''T20 T17 D16''), (142, ''T20 T14 D20''),
       (141, ''T20 T19 D12''), (140, ''T20 T20 D10''), (139, ''T19 T14 D20''),
       (138, ''T20 T18 D12''), (137, ''T20 T19 D10''), (136, ''T20 T20 D8''),
       (135, ''T20 T17 D12''), (134, ''T20 T14 D16''), (133, ''T20 T19 D8''),
       (132, ''T20 T16 D12''), (131, ''T20 T13 D16''), (130, ''T20 T18 D8''),
       (129, ''T19 T16 D12''), (128, ''T18 T14 D16''), (127, ''T20 T17 D8''),
       (126, ''T19 T19 D6''), (125, ''T18 T19 D7''), (124, ''T20 T14 D11''),
       (123, ''T19 T16 D9''), (122, ''T18 T18 D7''), (121, ''T17 T10 D20''),
       (120, ''T20 S20 D20''), (119, ''T19 T12 D13''), (118, ''T20 S18 D20''),
       (117, ''T20 S17 D20''), (116, ''T20 S16 D20''), (115, ''T19 S18 D20''),
       (114, ''T20 S14 D20''), (113, ''T19 S16 D20''), (112, ''T20 S12 D20''),
       (111, ''T19 S14 D20''), (110, ''T20 S10 D20''), (109, ''T19 S12 D20''),
       (108, ''T20 S8 D20''), (107, ''T19 S10 D20''), (106, ''T20 S6 D20''),
       (105, ''T19 S8 D20''), (104, ''T18 S10 D20''), (103, ''T19 S6 D20''),
       (102, ''T20 S10 D16''), (101, ''T17 S10 D20''), (100, ''T20 D20''),
       (99, ''T19 S10 D16''), (98, ''T20 D19''), (97, ''T19 D20''),
       (96, ''T20 D18''), (95, ''T19 D19''), (94, ''T18 D20''),
       (93, ''T19 D18''), (92, ''T20 D16''), (91, ''T17 D20''),
       (90, ''T18 D18''), (89, ''T19 D16''), (88, ''T20 D14''),
       (87, ''T17 D18''), (86, ''T18 D16''), (85, ''T15 D20''),
       (84, ''T20 D12''), (83, ''T17 D16''), (82, ''T14 D20''),
       (81, ''T19 D12''), (80, ''T20 D10''), (79, ''T19 D11''),
       (78, ''T18 D12''), (77, ''T19 D10''), (76, ''T20 D8''),
       (75, ''T17 D12''), (74, ''T14 D16''), (73, ''T19 D8''),
       (72, ''T16 D12''), (71, ''T13 D16''), (70, ''T18 D8''),
       (69, ''T19 D6''), (68, ''T20 D4''), (67, ''T17 D8''),
       (66, ''T10 D18''), (65, ''T19 D4''), (64, ''T16 D8''),
       (63, ''T13 D12''), (62, ''T10 D16''), (61, ''T15 D8''),
       (60, ''S20 D20''), (59, ''S19 D20''), (58, ''S18 D20''),
       (57, ''S17 D20''), (56, ''T16 D4''), (55, ''S15 D20''),
       (54, ''S14 D20''), (53, ''S13 D20''), (52, ''S12 D20''),
       (51, ''S11 D20''), (50, ''S10 D20''), (49, ''S9 D20''),
       (48, ''S8 D20''), (47, ''S7 D20''), (46, ''S6 D20''),
       (45, ''S13 D16''), (44, ''S4 D20''), (43, ''S3 D20''),
       (42, ''S10 D16''), (41, ''S9 D16''), (40, ''D20''),
       (38, ''D19''), (36, ''D18''), (34, ''D17''),
       (32, ''D16''), (30, ''D15''), (28, ''D14''),
       (26, ''D13''), (24, ''D12''), (22, ''D11''),
       (20, ''D10''), (18, ''D9''), (16, ''D8''),
       (14, ''D7''), (12, ''D6''), (10, ''D5''),
       (8, ''D4''), (6, ''D3''), (4, ''D2''),
       (2, ''D1'') ]"

definition getCheckoutSuggestion :: "int \<Rightarrow> string option" where
  "getCheckoutSuggestion sc = map_of CHECKOUT_TABLE sc"

definition isValidCheckout :: "int \<Rightarrow> bool" where
  "isValidCheckout sc \<longleftrightarrow> sc \<in> VALID_CHECKOUTS"

section \<open>The scoring engine (src/src/scoring/scoringEngine.ts)\<close>

text \<open>
  The constructor: \<^verbatim>\<open>doubleOut\<close> defaults to \<^verbatim>\<open>true\<close>, and \<^verbatim>\<open>legsNeeded\<close> is
  \<^verbatim>\<open>targetLegs\<close> for \<^verbatim>\<open>'first_to'\<close> and \<^verbatim>\<open>Math.ceil(targetLegs / 2)\<close> otherwise.
\<close>

definition new_DartsScoringEngine :: "MatchConfig \<Rightarrow> DartsScoringEngine" where
  "new_DartsScoringEngine cfg =
     \<lparr> config = cfg \<lparr> doubleOut :=
                (case doubleOut cfg of None \<Rightarrow> Some True | Some b \<Rightarrow> Some b) \<rparr>,
       legsNeeded =
         (if matchType cfg = first_to then targetLegs cfg
          else \<lceil>real_of_int (targetLegs cfg) / 2\<rceil>) \<rparr>"

definition createPlayerState ::
  "DartsScoringEngine \<Rightarrow> string \<Rightarrow> string option \<Rightarrow> PlayerState" where
  "createPlayerState eng nm ident =
     \<lparr> id_opt = ident, name = nm,
       score = startingScore (config eng),
       legs = 0, sets = Some 0,
       history = [], matchHistory = [],
       stats = INITIAL_MATCH_STATS,
       dartsThrown = 0 \<rparr>"

text \<open>
  The private method \<^verbatim>\<open>isBust(newScore)\<close> is \<open>isBust_score\<close> here, \<open>isBust\<close> being a
  field of \<^typ>\<open>ThrowResult\<close>.  The message of a rejected visit is the template
  \<^verbatim>\<open>`Invalid score. Maximum is ${MAX_SCORE}.`\<close> with \<^verbatim>\<open>MAX_SCORE = 180\<close> filled in.
\<close>

definition isBust_score :: "int \<Rightarrow> bool" where
  "isBust_score newScore' \<longleftrightarrow> newScore' < 0 \<or> newScore' = 1"

definition processThrow :: "DartsScoringEngine \<Rightarrow> PlayerState \<Rightarrow> int \<Rightarrow> ThrowResult" where
  "processThrow eng p scoreThrown =
     (if scoreThrown < 0 \<or> scoreThrown > MAX_SCORE then
        \<lparr> success = False, newScore = score p, isBust = False,
          isLegWon = False, isMatchWon = False,
          message = Some ''Invalid score. Maximum is 180.'' \<rparr>
      else
        let newScore' = score p - scoreThrown in
        if isBust_score newScore' then
          \<lparr> success = True, newScore = score p, isBust = True,
            isLegWon = False, isMatchWon = False,
            message = Some ''Bust!'' \<rparr>
        else if newScore' = 0 then
          let isMatchWon' = (legs p + 1 \<ge> legsNeeded eng) in
          \<lparr> success = True, newScore = 0, isBust = False,
            isLegWon = True, isMatchWon = isMatchWon',
            message = Some (if isMatchWon' then ''Match won!'' else ''Leg won!'') \<rparr>
        else
          \<lparr> success = True, newScore = newScore', isBust = False,
            isLegWon = False, isMatchWon = False,
            message = None \<rparr>)"

definition checkMatchWin :: "DartsScoringEngine \<Rightarrow> int \<Rightarrow> bool" where
  "checkMatchWin eng lgs \<longleftrightarrow> lgs \<ge> legsNeeded eng"

definition getLegsNeeded :: "DartsScoringEngine \<Rightarrow> int" where
  "getLegsNeeded eng = legsNeeded eng"

definition updateStats :: "MatchStats \<Rightarrow> int \<Rightarrow> MatchStats" where
  "updateStats st scoreThrown =
     st \<lparr> scores_180 := scores_180 st + (if scoreThrown = 180 then 1 else 0),
          scores_170_plus := scores_170_plus st
             + (if scoreThrown \<ge> 170 \<and> scoreThrown < 180 then 1 else 0),
          scores_140_plus := scores_140_plus st
             + (if scoreThrown \<ge> 140 \<and> scoreThrown < 170 then 1 else 0),
          scores_100_plus := scores_100_plus st
             + (if scoreThrown \<ge> 100 \<and> scoreThrown < 140 then 1 else 0),
          scores_90_plus := scores_90_plus st
             + (if scoreThrown \<ge> 90 \<and> scoreThrown < 100 then 1 else 0),
          scores_65_plus := scores_65_plus st
             + (if scoreThrown \<ge> 65 \<and> scoreThrown < 90 then 1 else 0) \<rparr>"

text \<open>
  \<^verbatim>\<open>Math.round(x)\<close> is the integer nearest to \<open>x\<close>, a tie going up: \<open>\<lfloor>x + 1/2\<rfloor>\<close>.
  The arithmetic of \<^verbatim>\<open>calculateAverage\<close> is read in exact real numbers; the rounding
  error of IEEE doubles is not part of the model.
\<close>

definition Math_round :: "real \<Rightarrow> int" where
  "Math_round x = \<lfloor>x + 1 / 2\<rfloor>"

definition calculateAverage :: "int list \<Rightarrow> real" where
  "calculateAverage mh =
     (if length mh = 0 then 0
      else
        let total = foldl (\<lambda>sum sc. sum + sc) 0 mh in
        real_of_int (Math_round ((real_of_int total / real (length mh)) * 100)) / 100)"

definition updateBestLeg :: "MatchStats \<Rightarrow> int \<Rightarrow> MatchStats" where
  "updateBestLeg st darts =
     (case best_leg st of
        None \<Rightarrow> st \<lparr> best_leg := Some darts \<rparr>
      | Some b \<Rightarrow> if darts < b then st \<lparr> best_leg := Some darts \<rparr> else st)"

text \<open>
  In \<^verbatim>\<open>applyThrow\<close> the test \<^verbatim>\<open>!newStats.highest_checkout\<close> is true when the field is
  absent and when it is \<open>0\<close>.
\<close>

definition applyThrow ::
  "DartsScoringEngine \<Rightarrow> PlayerState \<Rightarrow> int \<Rightarrow> ApplyThrowResult" where
  "applyThrow eng p scoreThrown =
     (let res = processThrow eng p scoreThrown in
      if \<not> success res then \<lparr> player = p, result = res \<rparr>
      else if isBust res then
        \<lparr> player = p \<lparr> dartsThrown := dartsThrown p + 3 \<rparr>, result = res \<rparr>
      else if isLegWon res then
        let finalDarts = dartsThrown p + 3;
            newHistory = history p @ [scoreThrown];
            newMatchHistory = matchHistory p @ [scoreThrown];
            newStats1 = updateStats (stats p) scoreThrown;
            newStats2 = updateBestLeg newStats1 finalDarts;
            newStats3 =
              (if (case highest_checkout newStats2 of
                     None \<Rightarrow> True | Some h \<Rightarrow> h = 0 \<or> score p > h)
               then newStats2 \<lparr> highest_checkout := Some (score p) \<rparr>
               else newStats2);
            newStats4 = newStats3 \<lparr> average := calculateAverage newMatchHistory,
                                   visit_history := Some newMatchHistory \<rparr>
        in \<lparr> player = p \<lparr> score := 0, legs := legs p + 1,
                           history := newHistory, matchHistory := newMatchHistory,
                           stats := newStats4, dartsThrown := 0 \<rparr>,
             result = res \<rparr>
      else
        let newHistory = history p @ [scoreThrown];
            newMatchHistory = matchHistory p @ [scoreThrown];
            newStats1 = updateStats (stats p) scoreThrown;
            newStats2 = newStats1 \<lparr> average := calculateAverage newMatchHistory,
                                   visit_history := Some newMatchHistory \<rparr>
        in \<lparr> player = p \<lparr> score := newScore res,
                           history := newHistory, matchHistory := newMatchHistory,
                           stats := newStats2, dartsThrown := dartsThrown p + 3 \<rparr>,
             result = res \<rparr>)"

definition resetForNewLeg :: "DartsScoringEngine \<Rightarrow> PlayerState \<Rightarrow> PlayerState" where
  "resetForNewLeg eng p =
     p \<lparr> score := startingScore (config eng), history := [], dartsThrown := 0 \<rparr>"

definition resetForNewMatch :: "DartsScoringEngine \<Rightarrow> PlayerState \<Rightarrow> PlayerState" where
  "resetForNewMatch eng p =
     p \<lparr> score := startingScore (config eng), legs := 0, sets := Some 0,
         history := [], matchHistory := [],
         stats := INITIAL_MATCH_STATS, dartsThrown := 0 \<rparr>"

definition getSuggestedCheckout :: "DartsScoringEngine \<Rightarrow> int \<Rightarrow> string option" where
  "getSuggestedCheckout eng remaining = getCheckoutSuggestion remaining"

subsection \<open>Sequences of calls\<close>

text \<open>
  The states a caller can hold are those obtained from \<^verbatim>\<open>createPlayerState\<close> by calls
  of \<^verbatim>\<open>applyThrow\<close> (keeping the returned player), \<^verbatim>\<open>resetForNewLeg\<close> and
  \<^verbatim>\<open>resetForNewMatch\<close>, in any order and with any visit score.
\<close>

datatype call = ApplyThrow int | ResetForNewLeg | ResetForNewMatch

fun step :: "DartsScoringEngine \<Rightarrow> PlayerState \<Rightarrow> call \<Rightarrow> PlayerState" where
  "step eng p (ApplyThrow v) = player (applyThrow eng p v)"
| "step eng p ResetForNewLeg = resetForNewLeg eng p"
| "step eng p ResetForNewMatch = resetForNewMatch eng p"

definition run :: "DartsScoringEngine \<Rightarrow> PlayerState \<Rightarrow> call list \<Rightarrow> PlayerState" where
  "run eng p cs = foldl (step eng) p cs"

text \<open>The state reached from a fresh player of the engine of \<open>cfg\<close> by a sequence of calls.\<close>

definition reached :: "MatchConfig \<Rightarrow> string \<Rightarrow> string option \<Rightarrow> call list \<Rightarrow> PlayerState" where
  "reached cfg nm ident calls =
     run (new_DartsScoringEngine cfg) (createPlayerState (new_DartsScoringEngine cfg) nm ident) calls"

subsection \<open>The earlier engine (src/scoringEngine.ts)\<close>

text \<open>
  The repository also holds the engine this one was rewritten from.  Its
  \<^verbatim>\<open>processThrow\<close> decides the match with \<^verbatim>\<open>this.checkMatchWin(player.legs + 1)\<close>, where
  \<^verbatim>\<open>checkMatchWin\<close> reads, under the comment \<^verbatim>\<open>Best of X: need more than half\<close>,
  \<^verbatim>\<open>legs > Math.floor(this.config.targetLegs / 2)\<close>.
\<close>

definition checkMatchWin_earlier :: "MatchConfig \<Rightarrow> int \<Rightarrow> bool" where
  "checkMatchWin_earlier cfg lgs =
     (if matchType cfg = first_to then lgs \<ge> targetLegs cfg
      else lgs > \<lfloor>real_of_int (targetLegs cfg) / 2\<rfloor>)"

subsection \<open>Reading the statistics\<close>

text \<open>
  The six magnitude counters of a \<^typ>\<open>MatchStats\<close>, lowest range first, and the bucket
  the specification assigns to a visit score: \<open>[65,89]\<close>, \<open>[90,99]\<close>, \<open>[100,139]\<close>,
  \<open>[140,169]\<close>, \<open>[170,179]\<close> and exactly \<open>180\<close>.
\<close>

definition buckets :: "MatchStats \<Rightarrow> int list" where
  "buckets st = [scores_65_plus st, scores_90_plus st, scores_100_plus st,
                 scores_140_plus st, scores_170_plus st, scores_180 st]"

definition spec_bucket :: "int \<Rightarrow> nat option" where
  "spec_bucket v =
     (if 65 \<le> v \<and> v \<le> 89 then Some 0
      else if 90 \<le> v \<and> v \<le> 99 then Some 1
      else if 100 \<le> v \<and> v \<le> 139 then Some 2
      else if 140 \<le> v \<and> v \<le> 169 then Some 3
      else if 170 \<le> v \<and> v \<le> 179 then Some 4
      else if v = 180 then Some 5
      else None)"

text \<open>
  The specification's \<open>round2\<close>: the multiple of \<open>1/100\<close> nearest to \<open>x\<close>.
\<close>

definition round2 :: "real \<Rightarrow> real" where
  "round2 x = real_of_int (round (x * 100)) / 100"

section \<open>The bot engine (src/src/scoring/botEngine.ts)\<close>

text \<open>
  The fields \<^verbatim>\<open>id\<close> and \<^verbatim>\<open>name\<close> of \<^verbatim>\<open>BotLevel\<close> are \<open>level_id\<close> and \<open>level_name\<close>
  here (\<open>name\<close> is a field of \<^typ>\<open>PlayerState\<close> already).
\<close>

record BotLevel =
  level_id :: int
  level_name :: string
  displayName :: string
  avg :: real
  checkoutRate :: real
  consistency :: real

definition BOT_LEVELS :: "BotLevel list" where
  "BOT_LEVELS =
     [ \<lparr> level_id = 1, level_name = ''beginner'', displayName = ''Beginner'',
         avg = 30, checkoutRate = 5 / 100, consistency = 30 \<rparr>,
       \<lparr> level_id = 2, level_name = ''pub_player'', displayName = ''Pub Player'',
         avg = 45, checkoutRate = 15 / 100, consistency = 28 \<rparr>,
       \<lparr> level_id = 3, level_name = ''super_league'', displayName = ''Super League'',
         avg = 60, checkoutRate = 30 / 100, consistency = 25 \<rparr>,
       \<lparr> level_id = 4, level_name = ''county'', displayName = ''County'',
         avg = 75, checkoutRate = 50 / 100, consistency = 22 \<rparr>,
       \<lparr> level_id = 5, level_name = ''pro'', displayName = ''Professional'',
         avg = 95, checkoutRate = 75 / 100, consistency = 18 \<rparr>,
       \<lparr> level_id = 6, level_name = ''dartbot_3000'', displayName = ''Dartbot 3000'',
         avg = 110, checkoutRate = 90 / 100, consistency = 12 \<rparr> ]"

definition GOOD_LEAVES :: "int list" where
  "GOOD_LEAVES = [32, 40, 36, 24, 16, 20, 8]"

text \<open>
  \<^verbatim>\<open>Math.random()\<close> is a source of draws: \<open>rnd k\<close> is the value of its \<open>k\<close>-th call, and
  every function that draws takes the number of calls made so far and returns it
  updated.  A draw lies in \<open>[0, 1)\<close>; the functions are defined for any real.

  A result is an \<^typ>\<open>int option\<close>: \<open>None\<close> stands for \<^verbatim>\<open>NaN\<close>, which
  \<^verbatim>\<open>attemptCheckout\<close> yields when \<^verbatim>\<open>GOOD_LEAVES[i]\<close> is read out of range
  (\<^verbatim>\<open>undefined\<close>).  In \<^verbatim>\<open>generateScoringVisit\<close> the comparison
  \<^verbatim>\<open>currentScore > undefined\<close> is false, so the \<^verbatim>\<open>else\<close> branch is taken.
\<close>

type_synonym draws = "nat \<Rightarrow> real"

definition getIdealLeave :: "BotLevel \<Rightarrow> draws \<Rightarrow> nat \<Rightarrow> int option \<times> nat" where
  "getIdealLeave level rnd n =
     (if avg level \<ge> 80 then (Some 32, n)
      else
        let i = \<lfloor>rnd n * real (length GOOD_LEAVES)\<rfloor> in
        (if 0 \<le> i \<and> i < int (length GOOD_LEAVES) then Some (GOOD_LEAVES ! nat i) else None,
         Suc n))"

definition attemptCheckout :: "BotLevel \<Rightarrow> int \<Rightarrow> draws \<Rightarrow> nat \<Rightarrow> int option \<times> nat" where
  "attemptCheckout level currentScore rnd n =
     (let roll = rnd n; n1 = Suc n in
      if roll < checkoutRate level then (Some currentScore, n1)
      else if currentScore \<le> 40 then
        let missedScore = currentScore div 2;
            variance = \<lfloor>rnd n1 * 10\<rfloor> - 5
        in (Some (max 0 (missedScore + variance)), Suc n1)
      else
        let (targetLeave, n2) = getIdealLeave level rnd n1;
            variance = \<lfloor>rnd n2 * 20\<rfloor> - 10
        in (case targetLeave of
              None \<Rightarrow> None
            | Some leave \<Rightarrow>
                let potentialScore = currentScore - leave;
                    potentialScore1 = (if potentialScore > 180 then 100 else potentialScore);
                    potentialScore2 = (if potentialScore1 \<le> 0 then 0 else potentialScore1)
                in Some (max 0 (min 180 (potentialScore2 + variance))),
            Suc n2))"

text \<open>
  The normal deviate of the Box-Muller transform is computed in exact reals.  (In the
  source a draw \<open>u1 = 0\<close> gives \<^verbatim>\<open>Math.log(0) = -Infinity\<close> and an infinite deviate,
  which the clamp sends to \<open>0\<close> or \<open>180\<close>.)
\<close>

definition generateScoringVisit ::
  "BotLevel \<Rightarrow> int \<Rightarrow> draws \<Rightarrow> nat \<Rightarrow> int option \<times> nat" where
  "generateScoringVisit level currentScore rnd n =
     (let u1 = rnd n; u2 = rnd (Suc n); n2 = Suc (Suc n);
          z = sqrt (- 2 * ln u1) * cos (2 * pi * u2);
          score0 = Math_round (avg level + z * consistency level);
          score1 = max 0 (min 180 score0)
      in if currentScore - score1 \<le> 1 \<and> currentScore > 40 then
           let (idealLeave, n3) = getIdealLeave level rnd n2 in
           (Some (case idealLeave of
                    Some il \<Rightarrow>
                      if currentScore > il then currentScore - il
                      else max 0 (currentScore - 40)
                  | None \<Rightarrow> max 0 (currentScore - 40)),
            n3)
         else (Some score1, n2))"

definition generateScore :: "BotLevel \<Rightarrow> int \<Rightarrow> draws \<Rightarrow> nat \<Rightarrow> int option \<times> nat" where
  "generateScore level currentScore rnd n =
     (let canCheckout = (currentScore \<le> 170 \<and> currentScore \<notin> set INVALID_CHECKOUTS) in
      if canCheckout then attemptCheckout level currentScore rnd n
      else generateScoringVisit level currentScore rnd n)"

section \<open>Example data\<close>

text \<open>
  \<^verbatim>\<open>DEFAULT_MATCH_CONFIG\<close> of src/src/constants/index.ts, a best-of-four variant of it,
  and players of the default engine placed on a given score with a given number of legs.
\<close>

definition DEFAULT_MATCH_CONFIG :: MatchConfig where
  "DEFAULT_MATCH_CONFIG =
     \<lparr> startingScore = 501, matchType = first_to, targetLegs = 3,
       targetSets = None, doubleIn = Some False, doubleOut = Some True \<rparr>"

definition best_of_four :: MatchConfig where
  "best_of_four = DEFAULT_MATCH_CONFIG \<lparr> matchType := best_of, targetLegs := 4 \<rparr>"

definition player_at :: "int \<Rightarrow> int \<Rightarrow> PlayerState" where
  "player_at sc lg =
     (createPlayerState (new_DartsScoringEngine DEFAULT_MATCH_CONFIG) ''Player 1'' None)
       \<lparr> score := sc, legs := lg \<rparr>"

text \<open>
  A sequence of calls with two rejected visits, a bust, a leg won and both resets.
\<close>

definition example_calls :: "call list" where
  "example_calls = [ApplyThrow 180, ApplyThrow 200, ApplyThrow 180, ApplyThrow 140,
                    ApplyThrow 141, ResetForNewLeg, ApplyThrow 60, ResetForNewMatch,
                    ApplyThrow (- 3), ApplyThrow 26]"

text \<open>Two sources of draws: every draw \<open>1/100\<close>, and every draw \<open>9/10\<close>.\<close>

definition draws_low :: draws where
  "draws_low k = 1 / 100"

definition draws_high :: draws where
  "draws_high k = 9 / 10"

section \<open>Classification of a visit by \<^verbatim>\<open>processThrow\<close>\<close>

lemma processThrow_success:
  "success (processThrow eng p v) \<longleftrightarrow> 0 \<le> v \<and> v \<le> 180"
  by (auto simp: processThrow_def MAX_SCORE_def Let_def)

lemma processThrow_reject:
  assumes "v < 0 \<or> v > 180"
  shows "processThrow eng p v =
           \<lparr> success = False, newScore = score p, isBust = False,
             isLegWon = False, isMatchWon = False,
             message = Some ''Invalid score. Maximum is 180.'' \<rparr>"
  using assms by (auto simp: processThrow_def MAX_SCORE_def)

lemma processThrow_bust:
  assumes "0 \<le> v" "v \<le> 180" "score p - v < 0 \<or> score p - v = 1"
  shows "processThrow eng p v =
           \<lparr> success = True, newScore = score p, isBust = True,
             isLegWon = False, isMatchWon = False, message = Some ''Bust!'' \<rparr>"
  using assms by (auto simp: processThrow_def MAX_SCORE_def isBust_score_def)

lemma processThrow_checkout:
  assumes "0 \<le> v" "v \<le> 180" "score p - v = 0"
  shows "processThrow eng p v =
           \<lparr> success = True, newScore = 0, isBust = False,
             isLegWon = True, isMatchWon = (legs p + 1 \<ge> legsNeeded eng),
             message = Some (if legs p + 1 \<ge> legsNeeded eng
                             then ''Match won!'' else ''Leg won!'') \<rparr>"
  using assms by (simp add: processThrow_def MAX_SCORE_def isBust_score_def Let_def)

lemma processThrow_normal:
  assumes "0 \<le> v" "v \<le> 180" "score p - v \<ge> 2"
  shows "processThrow eng p v =
           \<lparr> success = True, newScore = score p - v, isBust = False,
             isLegWon = False, isMatchWon = False, message = None \<rparr>"
  using assms by (simp add: processThrow_def MAX_SCORE_def isBust_score_def Let_def)

section \<open>Match completion\<close>

text \<open>
  What the engine computes on a leg-winning visit: the legs after the win are compared,
  with \<open>\<ge>\<close>, to \<open>targetLegs\<close> or to \<open>\<lceil>targetLegs / 2\<rceil>\<close>.
\<close>

lemma isMatchWon_checkout:
  assumes "0 \<le> v" "v \<le> 180" "score p - v = 0"
  shows "isMatchWon (processThrow (new_DartsScoringEngine cfg) p v) \<longleftrightarrow>
           (if matchType cfg = first_to then legs p + 1 \<ge> targetLegs cfg
            else legs p + 1 \<ge> (targetLegs cfg + 1) div 2)"
proof -
  have "\<lceil>real_of_int (targetLegs cfg) / 2\<rceil> = (targetLegs cfg + 1) div 2"
    by linarith
  then show ?thesis
    using processThrow_checkout [OF assms, of "new_DartsScoringEngine cfg"]
    by (simp add: new_DartsScoringEngine_def)
qed

text \<open>
  For \<open>first_to\<close>, and for \<open>best_of\<close> with an odd number of legs, this is the threshold
  of the specification.
\<close>

lemma isMatchWon_threshold_unless_even_best_of:
  assumes "0 \<le> v" "v \<le> 180" "score p - v = 0"
    and "matchType cfg = first_to \<or> odd (targetLegs cfg)"
  shows "isMatchWon (processThrow (new_DartsScoringEngine cfg) p v) \<longleftrightarrow>
           (if matchType cfg = first_to then legs p + 1 \<ge> targetLegs cfg
            else legs p + 1 > targetLegs cfg div 2)"
proof (cases "matchType cfg = first_to")
  case True
  then show ?thesis using isMatchWon_checkout [OF assms(1-3), of cfg] by simp
next
  case False
  with assms(4) have "odd (targetLegs cfg)" by simp
  then have "(targetLegs cfg + 1) div 2 = targetLegs cfg div 2 + 1"
    by presburger
  then show ?thesis using False isMatchWon_checkout [OF assms(1-3), of cfg] by auto
qed

text \<open>
  C1.  In a best-of-four match a player with one leg, on 40, throws 40.  The engine
  reports the match as won with two legs, although two is not more than
  \<open>\<lfloor>4 / 2\<rfloor> = 2\<close>; the earlier engine's \<^verbatim>\<open>checkMatchWin\<close> says that two legs do not
  win this match.
\<close>

theorem best_of_even_targetLegs_match_won_at_half:
  "isMatchWon (processThrow (new_DartsScoringEngine best_of_four) (player_at 40 1) 40)
   \<and> \<not> (legs (player_at 40 1) + 1 > \<lfloor>real_of_int (targetLegs best_of_four) / 2\<rfloor>)
   \<and> \<not> checkMatchWin_earlier best_of_four (legs (player_at 40 1) + 1)"
  by (simp add: processThrow_def new_DartsScoringEngine_def best_of_four_def
      DEFAULT_MATCH_CONFIG_def player_at_def createPlayerState_def MAX_SCORE_def
      isBust_score_def checkMatchWin_earlier_def)

section \<open>Bust, checkout and rejection\<close>

text \<open>
  C2.  A visit in \<open>[0, 180]\<close> that would leave a negative score or exactly \<open>1\<close> is a bust:
  \<^verbatim>\<open>applyThrow\<close> reports \<open>isBust\<close>, keeps the score, adds three darts and leaves
  \<open>history\<close>, \<open>matchHistory\<close>, \<open>legs\<close>, \<open>sets\<close> and \<open>stats\<close> as they were.
\<close>

theorem applyThrow_bust_frame:
  assumes "0 \<le> v" and "v \<le> 180"
    and "score p - v < 0 \<or> score p - v = 1"
  shows "isBust (result (applyThrow (new_DartsScoringEngine cfg) p v))
       \<and> score (player (applyThrow (new_DartsScoringEngine cfg) p v)) = score p
       \<and> dartsThrown (player (applyThrow (new_DartsScoringEngine cfg) p v)) = dartsThrown p + 3
       \<and> history (player (applyThrow (new_DartsScoringEngine cfg) p v)) = history p
       \<and> matchHistory (player (applyThrow (new_DartsScoringEngine cfg) p v)) = matchHistory p
       \<and> legs (player (applyThrow (new_DartsScoringEngine cfg) p v)) = legs p
       \<and> sets (player (applyThrow (new_DartsScoringEngine cfg) p v)) = sets p
       \<and> stats (player (applyThrow (new_DartsScoringEngine cfg) p v)) = stats p"
  using processThrow_bust [OF assms] by (simp add: applyThrow_def)

text \<open>Scenario 3 of the specification: on 41, a visit of 40 leaves 1.\<close>

theorem applyThrow_bust_frame_witness:
  "(0::int) \<le> 40 \<and> (40::int) \<le> 180 \<and> score (player_at 41 0) - 40 = 1
   \<and> isBust (result (applyThrow (new_DartsScoringEngine DEFAULT_MATCH_CONFIG) (player_at 41 0) 40))
   \<and> score (player (applyThrow (new_DartsScoringEngine DEFAULT_MATCH_CONFIG) (player_at 41 0) 40)) = 41
   \<and> dartsThrown (player (applyThrow (new_DartsScoringEngine DEFAULT_MATCH_CONFIG) (player_at 41 0) 40)) = 3
   \<and> history (player (applyThrow (new_DartsScoringEngine DEFAULT_MATCH_CONFIG) (player_at 41 0) 40)) = []"
  using applyThrow_bust_frame [of 40 "player_at 41 0" DEFAULT_MATCH_CONFIG]
  by (simp add: player_at_def createPlayerState_def)

text \<open>
  C3.  A visit in \<open>[0, 180]\<close> equal to the remaining score wins the leg, whatever the
  visit is: \<^verbatim>\<open>processThrow\<close> reports \<open>isLegWon\<close> and a new score of \<open>0\<close>, and
  \<^verbatim>\<open>applyThrow\<close> adds a leg, appends the visit to both histories, sets the score to \<open>0\<close>
  and the darts of the leg to \<open>0\<close>.
\<close>

theorem applyThrow_checkout:
  assumes "0 \<le> v" and "v \<le> 180" and "score p - v = 0"
  shows "isLegWon (processThrow (new_DartsScoringEngine cfg) p v)
       \<and> newScore (processThrow (new_DartsScoringEngine cfg) p v) = 0
       \<and> legs (player (applyThrow (new_DartsScoringEngine cfg) p v)) = legs p + 1
       \<and> history (player (applyThrow (new_DartsScoringEngine cfg) p v)) = history p @ [v]
       \<and> matchHistory (player (applyThrow (new_DartsScoringEngine cfg) p v))
           = matchHistory p @ [v]
       \<and> score (player (applyThrow (new_DartsScoringEngine cfg) p v)) = 0
       \<and> dartsThrown (player (applyThrow (new_DartsScoringEngine cfg) p v)) = 0"
  using processThrow_checkout [OF assms] by (simp add: applyThrow_def Let_def)

text \<open>A finish of 169, which is not in \<^const>\<open>VALID_CHECKOUTS\<close>, wins the leg.\<close>

theorem applyThrow_checkout_witness:
  "(0::int) \<le> 169 \<and> (169::int) \<le> 180 \<and> score (player_at 169 0) - 169 = 0
   \<and> 169 \<notin> VALID_CHECKOUTS
   \<and> isLegWon (processThrow (new_DartsScoringEngine DEFAULT_MATCH_CONFIG) (player_at 169 0) 169)
   \<and> legs (player (applyThrow (new_DartsScoringEngine DEFAULT_MATCH_CONFIG) (player_at 169 0) 169)) = 1
   \<and> history (player (applyThrow (new_DartsScoringEngine DEFAULT_MATCH_CONFIG) (player_at 169 0) 169)) = [169]
   \<and> score (player (applyThrow (new_DartsScoringEngine DEFAULT_MATCH_CONFIG) (player_at 169 0) 169)) = 0"
  using applyThrow_checkout [of 169 "player_at 169 0" DEFAULT_MATCH_CONFIG]
  by (simp add: player_at_def createPlayerState_def VALID_CHECKOUTS_def)

text \<open>
  C4.  \<^verbatim>\<open>processThrow\<close> rejects a visit exactly when it is below \<open>0\<close> or above \<open>180\<close>;
  a rejected visit reports the player's current score and carries a message, and
  \<^verbatim>\<open>applyThrow\<close> returns the player unchanged; a visit in \<open>[0, 180]\<close> is accepted.
\<close>

theorem processThrow_rejects_out_of_range:
  "(success (processThrow (new_DartsScoringEngine cfg) p v) = False \<longleftrightarrow> v < 0 \<or> v > 180)
   \<and> (v < 0 \<or> v > 180 \<longrightarrow>
        newScore (processThrow (new_DartsScoringEngine cfg) p v) = score p
        \<and> message (processThrow (new_DartsScoringEngine cfg) p v) \<noteq> None
        \<and> player (applyThrow (new_DartsScoringEngine cfg) p v) = p)
   \<and> (0 \<le> v \<and> v \<le> 180 \<longrightarrow> success (processThrow (new_DartsScoringEngine cfg) p v))"
proof (intro conjI impI)
  show "success (processThrow (new_DartsScoringEngine cfg) p v) = False \<longleftrightarrow> v < 0 \<or> v > 180"
    by (auto simp: processThrow_success)
next
  assume out: "v < 0 \<or> v > 180"
  note r = processThrow_reject [OF out, of "new_DartsScoringEngine cfg" p]
  show "newScore (processThrow (new_DartsScoringEngine cfg) p v) = score p"
    by (simp add: r)
  show "message (processThrow (new_DartsScoringEngine cfg) p v) \<noteq> None"
    by (simp add: r)
  show "player (applyThrow (new_DartsScoringEngine cfg) p v) = p"
    by (simp add: applyThrow_def r)
next
  assume "0 \<le> v \<and> v \<le> 180"
  then show "success (processThrow (new_DartsScoringEngine cfg) p v)"
    by (simp add: processThrow_success)
qed

theorem processThrow_rejects_out_of_range_witness:
  "((181::int) < 0 \<or> (181::int) > 180)
   \<and> success (processThrow (new_DartsScoringEngine DEFAULT_MATCH_CONFIG) (player_at 501 0) 181) = False
   \<and> newScore (processThrow (new_DartsScoringEngine DEFAULT_MATCH_CONFIG) (player_at 501 0) 181) = 501
   \<and> player (applyThrow (new_DartsScoringEngine DEFAULT_MATCH_CONFIG) (player_at 501 0) 181)
       = player_at 501 0
   \<and> ((0::int) \<le> 180 \<and> (180::int) \<le> 180)
   \<and> success (processThrow (new_DartsScoringEngine DEFAULT_MATCH_CONFIG) (player_at 501 0) 180)"
  using processThrow_rejects_out_of_range [of DEFAULT_MATCH_CONFIG "player_at 501 0" 181]
        processThrow_rejects_out_of_range [of DEFAULT_MATCH_CONFIG "player_at 501 0" 180]
  by (simp add: player_at_def createPlayerState_def)

section \<open>Invariants of the player state\<close>

lemma startingScore_new [simp]:
  "startingScore (config (new_DartsScoringEngine cfg)) = startingScore cfg"
  by (simp add: new_DartsScoringEngine_def)

text \<open>
  The four outcomes of \<^verbatim>\<open>applyThrow\<close>, as far as the score and the history of the
  leg go: rejected, bust, leg won, ordinary visit.
\<close>

lemma applyThrow_outcomes:
  "(\<not> success (result (applyThrow eng p v)) \<and> player (applyThrow eng p v) = p)
   \<or> (success (result (applyThrow eng p v)) \<and> isBust (result (applyThrow eng p v))
       \<and> score (player (applyThrow eng p v)) = score p
       \<and> history (player (applyThrow eng p v)) = history p)
   \<or> (success (result (applyThrow eng p v)) \<and> \<not> isBust (result (applyThrow eng p v))
       \<and> isLegWon (result (applyThrow eng p v))
       \<and> 0 \<le> v \<and> score p = v
       \<and> score (player (applyThrow eng p v)) = 0
       \<and> history (player (applyThrow eng p v)) = history p @ [v])
   \<or> (success (result (applyThrow eng p v)) \<and> \<not> isBust (result (applyThrow eng p v))
       \<and> \<not> isLegWon (result (applyThrow eng p v))
       \<and> 0 \<le> v \<and> 2 \<le> score p - v
       \<and> score (player (applyThrow eng p v)) = score p - v
       \<and> history (player (applyThrow eng p v)) = history p @ [v])"
proof -
  consider (rej) "v < 0 \<or> v > 180"
    | (bust) "0 \<le> v" "v \<le> 180" "score p - v < 0 \<or> score p - v = 1"
    | (win) "0 \<le> v" "v \<le> 180" "score p - v = 0"
    | (norm) "0 \<le> v" "v \<le> 180" "score p - v \<ge> 2"
    by linarith
  then show ?thesis
  proof cases
    case rej
    then show ?thesis by (simp add: applyThrow_def processThrow_reject)
  next
    case bust
    then show ?thesis by (simp add: applyThrow_def processThrow_bust)
  next
    case win
    then show ?thesis by (simp add: applyThrow_def processThrow_checkout Let_def)
  next
    case norm
    then show ?thesis by (simp add: applyThrow_def processThrow_normal Let_def)
  qed
qed

lemma applyThrow_flags:
  "(isLegWon (result (applyThrow eng p v)) \<longrightarrow>
       success (result (applyThrow eng p v)) \<and> \<not> isBust (result (applyThrow eng p v)))
   \<and> (isBust (result (applyThrow eng p v)) \<longrightarrow> success (result (applyThrow eng p v)))"
  by (simp add: applyThrow_def processThrow_def Let_def)

lemma step_score_range:
  assumes "0 \<le> startingScore (config eng)"
    and "0 \<le> score p \<and> score p \<le> startingScore (config eng)"
  shows "0 \<le> score (step eng p c) \<and> score (step eng p c) \<le> startingScore (config eng)"
proof (cases c)
  case (ApplyThrow v)
  show ?thesis
    using applyThrow_outcomes [of eng p v] assms unfolding ApplyThrow step.simps
    by (elim disjE conjE) simp_all
next
  case ResetForNewLeg
  then show ?thesis using assms by (simp add: resetForNewLeg_def)
next
  case ResetForNewMatch
  then show ?thesis using assms by (simp add: resetForNewMatch_def)
qed

lemma run_score_range:
  assumes "0 \<le> startingScore (config eng)"
    and "0 \<le> score p \<and> score p \<le> startingScore (config eng)"
  shows "0 \<le> score (run eng p cs) \<and> score (run eng p cs) \<le> startingScore (config eng)"
  using assms(2)
proof (induction cs arbitrary: p)
  case Nil
  then show ?case by (simp add: run_def)
next
  case (Cons c cs)
  have "run eng p (c # cs) = run eng (step eng p c) cs"
    by (simp add: run_def)
  then show ?case
    using Cons.IH [OF step_score_range [OF assms(1) Cons.prems]] by simp
qed

lemma step_history:
  assumes "score p = startingScore (config eng) - sum_list (history p)"
  shows "score (step eng p c) = startingScore (config eng) - sum_list (history (step eng p c))"
proof (cases c)
  case (ApplyThrow v)
  show ?thesis
    using applyThrow_outcomes [of eng p v] assms unfolding ApplyThrow step.simps
    by (elim disjE conjE) simp_all
next
  case ResetForNewLeg
  then show ?thesis by (simp add: resetForNewLeg_def)
next
  case ResetForNewMatch
  then show ?thesis by (simp add: resetForNewMatch_def)
qed

lemma run_history:
  assumes "score p = startingScore (config eng) - sum_list (history p)"
  shows "score (run eng p cs) = startingScore (config eng) - sum_list (history (run eng p cs))"
  using assms
proof (induction cs arbitrary: p)
  case Nil
  then show ?case by (simp add: run_def)
next
  case (Cons c cs)
  have "run eng p (c # cs) = run eng (step eng p c) cs"
    by (simp add: run_def)
  then show ?case
    using Cons.IH [OF step_history [OF Cons.prems]] by simp
qed

lemmas eval_defs = run_def applyThrow_def processThrow_def isBust_score_def MAX_SCORE_def
  createPlayerState_def resetForNewLeg_def resetForNewMatch_def new_DartsScoringEngine_def
  DEFAULT_MATCH_CONFIG_def INITIAL_MATCH_STATS_def updateStats_def updateBestLeg_def
  calculateAverage_def Math_round_def Let_def

lemma reached_example_calls:
  "score (reached DEFAULT_MATCH_CONFIG ''Player 1'' None example_calls) = 475"
  by (simp add: reached_def eval_defs example_calls_def)

lemma reached_two_visits:
  "reached DEFAULT_MATCH_CONFIG ''Player 1'' None [ApplyThrow 180, ApplyThrow 180]
     = (createPlayerState (new_DartsScoringEngine DEFAULT_MATCH_CONFIG) ''Player 1'' None)
         \<lparr> score := 141, history := [180, 180], matchHistory := [180, 180],
           stats := INITIAL_MATCH_STATS \<lparr> scores_180 := 2, average := 180,
                      visit_history := Some [180, 180] \<rparr>,
           dartsThrown := 6 \<rparr>"
  by (simp add: reached_def eval_defs)

text \<open>
  C5.  With a positive starting score, every state reached from \<^verbatim>\<open>createPlayerState\<close>
  by calls of \<^verbatim>\<open>applyThrow\<close>, \<^verbatim>\<open>resetForNewLeg\<close> and \<^verbatim>\<open>resetForNewMatch\<close> has a score
  between \<open>0\<close> and the starting score.
\<close>

theorem score_between_zero_and_startingScore:
  assumes "0 < startingScore cfg"
  shows "0 \<le> score (reached cfg nm ident calls)
       \<and> score (reached cfg nm ident calls) \<le> startingScore cfg"
proof -
  have "0 \<le> startingScore (config (new_DartsScoringEngine cfg))"
    using assms by simp
  moreover have "0 \<le> score (createPlayerState (new_DartsScoringEngine cfg) nm ident)
      \<and> score (createPlayerState (new_DartsScoringEngine cfg) nm ident)
          \<le> startingScore (config (new_DartsScoringEngine cfg))"
    using assms by (simp add: createPlayerState_def)
  ultimately show ?thesis
    using run_score_range [of "new_DartsScoringEngine cfg"] by (simp add: reached_def)
qed

text \<open>
  The default match (501, first to 3): after the example calls the player stands on 475.
\<close>

theorem score_between_zero_and_startingScore_witness:
  "0 < startingScore DEFAULT_MATCH_CONFIG
   \<and> score (reached DEFAULT_MATCH_CONFIG ''Player 1'' None example_calls) = 475
   \<and> 0 \<le> score (reached DEFAULT_MATCH_CONFIG ''Player 1'' None example_calls)
   \<and> score (reached DEFAULT_MATCH_CONFIG ''Player 1'' None example_calls) \<le> 501"
proof -
  have pos: "0 < startingScore DEFAULT_MATCH_CONFIG"
    by (simp add: DEFAULT_MATCH_CONFIG_def)
  have st: "startingScore DEFAULT_MATCH_CONFIG = 501"
    by (simp add: DEFAULT_MATCH_CONFIG_def)
  show ?thesis
    using pos reached_example_calls
      score_between_zero_and_startingScore [OF pos, of "''Player 1''" None example_calls]
    by (simp add: st)
qed

text \<open>
  C10.  In every reached state the score is the starting score less the sum of the
  leg's history.  From such a state a rejected or busted visit changes neither the score
  nor the history, an ordinary visit subtracts what it appends, a leg-winning visit
  leaves score \<open>0\<close> and a history that sums to the starting score, and both resets give
  the starting score and an empty history.
\<close>

theorem score_is_startingScore_minus_history:
  "score (reached cfg nm ident calls)
     = startingScore cfg - sum_list (history (reached cfg nm ident calls))
   \<and> (\<not> success (result (applyThrow (new_DartsScoringEngine cfg) (reached cfg nm ident calls) v))
        \<or> isBust (result (applyThrow (new_DartsScoringEngine cfg) (reached cfg nm ident calls) v))
      \<longrightarrow> score (player (applyThrow (new_DartsScoringEngine cfg) (reached cfg nm ident calls) v))
             = score (reached cfg nm ident calls)
          \<and> history (player (applyThrow (new_DartsScoringEngine cfg) (reached cfg nm ident calls) v))
             = history (reached cfg nm ident calls))
   \<and> (success (result (applyThrow (new_DartsScoringEngine cfg) (reached cfg nm ident calls) v))
        \<and> \<not> isBust (result (applyThrow (new_DartsScoringEngine cfg) (reached cfg nm ident calls) v))
        \<and> \<not> isLegWon (result (applyThrow (new_DartsScoringEngine cfg) (reached cfg nm ident calls) v))
      \<longrightarrow> score (player (applyThrow (new_DartsScoringEngine cfg) (reached cfg nm ident calls) v))
             = score (reached cfg nm ident calls) - v
          \<and> history (player (applyThrow (new_DartsScoringEngine cfg) (reached cfg nm ident calls) v))
             = history (reached cfg nm ident calls) @ [v])
   \<and> (isLegWon (result (applyThrow (new_DartsScoringEngine cfg) (reached cfg nm ident calls) v))
      \<longrightarrow> score (player (applyThrow (new_DartsScoringEngine cfg) (reached cfg nm ident calls) v)) = 0
          \<and> sum_list (history (player (applyThrow (new_DartsScoringEngine cfg)
                                         (reached cfg nm ident calls) v)))
             = startingScore cfg)
   \<and> score (resetForNewLeg (new_DartsScoringEngine cfg) (reached cfg nm ident calls))
       = startingScore cfg
   \<and> history (resetForNewLeg (new_DartsScoringEngine cfg) (reached cfg nm ident calls)) = []
   \<and> score (resetForNewMatch (new_DartsScoringEngine cfg) (reached cfg nm ident calls))
       = startingScore cfg
   \<and> history (resetForNewMatch (new_DartsScoringEngine cfg) (reached cfg nm ident calls)) = []"
proof -
  define eng where "eng = new_DartsScoringEngine cfg"
  define p where "p = reached cfg nm ident calls"
  have S: "startingScore (config eng) = startingScore cfg"
    by (simp add: eng_def)
  have "score (createPlayerState eng nm ident)
          = startingScore (config eng) - sum_list (history (createPlayerState eng nm ident))"
    by (simp add: createPlayerState_def)
  then have inv: "score p = startingScore cfg - sum_list (history p)"
    using run_history [of "createPlayerState eng nm ident" eng calls]
    by (simp add: p_def reached_def eng_def)
  note out = applyThrow_outcomes [of eng p v] and fl = applyThrow_flags [of eng p v]
  have a: "\<not> success (result (applyThrow eng p v)) \<or> isBust (result (applyThrow eng p v))
      \<longrightarrow> score (player (applyThrow eng p v)) = score p
          \<and> history (player (applyThrow eng p v)) = history p"
    using out by auto
  have b: "success (result (applyThrow eng p v)) \<and> \<not> isBust (result (applyThrow eng p v))
        \<and> \<not> isLegWon (result (applyThrow eng p v))
      \<longrightarrow> score (player (applyThrow eng p v)) = score p - v
          \<and> history (player (applyThrow eng p v)) = history p @ [v]"
    using out by auto
  have c: "isLegWon (result (applyThrow eng p v))
      \<longrightarrow> score (player (applyThrow eng p v)) = 0
          \<and> sum_list (history (player (applyThrow eng p v))) = startingScore cfg"
    using out fl inv by auto
  have d: "score (resetForNewLeg eng p) = startingScore cfg"
      "history (resetForNewLeg eng p) = []"
      "score (resetForNewMatch eng p) = startingScore cfg"
      "history (resetForNewMatch eng p) = []"
    by (simp_all add: resetForNewLeg_def resetForNewMatch_def S)
  show ?thesis
    using inv a b c d unfolding eng_def p_def by blast
qed

theorem score_is_startingScore_minus_history_witness:
  "isLegWon (result (applyThrow (new_DartsScoringEngine DEFAULT_MATCH_CONFIG)
      (reached DEFAULT_MATCH_CONFIG ''Player 1'' None [ApplyThrow 180, ApplyThrow 180]) 141))
   \<and> sum_list (history (player (applyThrow (new_DartsScoringEngine DEFAULT_MATCH_CONFIG)
      (reached DEFAULT_MATCH_CONFIG ''Player 1'' None [ApplyThrow 180, ApplyThrow 180]) 141))) = 501
   \<and> isBust (result (applyThrow (new_DartsScoringEngine DEFAULT_MATCH_CONFIG)
      (reached DEFAULT_MATCH_CONFIG ''Player 1'' None [ApplyThrow 180, ApplyThrow 180]) 140))
   \<and> score (player (applyThrow (new_DartsScoringEngine DEFAULT_MATCH_CONFIG)
      (reached DEFAULT_MATCH_CONFIG ''Player 1'' None [ApplyThrow 180, ApplyThrow 180]) 140)) = 141
   \<and> success (result (applyThrow (new_DartsScoringEngine DEFAULT_MATCH_CONFIG)
      (reached DEFAULT_MATCH_CONFIG ''Player 1'' None [ApplyThrow 180, ApplyThrow 180]) 100))
   \<and> score (player (applyThrow (new_DartsScoringEngine DEFAULT_MATCH_CONFIG)
      (reached DEFAULT_MATCH_CONFIG ''Player 1'' None [ApplyThrow 180, ApplyThrow 180]) 100)) = 41"
proof -
  note r = reached_two_visits
  have w: "isLegWon (result (applyThrow (new_DartsScoringEngine DEFAULT_MATCH_CONFIG)
      (reached DEFAULT_MATCH_CONFIG ''Player 1'' None [ApplyThrow 180, ApplyThrow 180]) 141))"
    by (simp add: r applyThrow_def processThrow_def isBust_score_def MAX_SCORE_def
        createPlayerState_def Let_def)
  have b: "isBust (result (applyThrow (new_DartsScoringEngine DEFAULT_MATCH_CONFIG)
      (reached DEFAULT_MATCH_CONFIG ''Player 1'' None [ApplyThrow 180, ApplyThrow 180]) 140))"
    by (simp add: r applyThrow_def processThrow_def isBust_score_def MAX_SCORE_def
        createPlayerState_def Let_def)
  have n: "success (result (applyThrow (new_DartsScoringEngine DEFAULT_MATCH_CONFIG)
      (reached DEFAULT_MATCH_CONFIG ''Player 1'' None [ApplyThrow 180, ApplyThrow 180]) 100))
    \<and> \<not> isBust (result (applyThrow (new_DartsScoringEngine DEFAULT_MATCH_CONFIG)
      (reached DEFAULT_MATCH_CONFIG ''Player 1'' None [ApplyThrow 180, ApplyThrow 180]) 100))
    \<and> \<not> isLegWon (result (applyThrow (new_DartsScoringEngine DEFAULT_MATCH_CONFIG)
      (reached DEFAULT_MATCH_CONFIG ''Player 1'' None [ApplyThrow 180, ApplyThrow 180]) 100))"
    by (simp add: r applyThrow_def processThrow_def isBust_score_def MAX_SCORE_def
        createPlayerState_def Let_def)
  have s: "score (reached DEFAULT_MATCH_CONFIG ''Player 1'' None [ApplyThrow 180, ApplyThrow 180]) = 141"
    by (simp add: r createPlayerState_def)
  have st: "startingScore DEFAULT_MATCH_CONFIG = 501"
    by (simp add: DEFAULT_MATCH_CONFIG_def)
  show ?thesis
    using w b n s st
      score_is_startingScore_minus_history
        [of DEFAULT_MATCH_CONFIG "''Player 1''" None "[ApplyThrow 180, ApplyThrow 180]" 141]
      score_is_startingScore_minus_history
        [of DEFAULT_MATCH_CONFIG "''Player 1''" None "[ApplyThrow 180, ApplyThrow 180]" 140]
      score_is_startingScore_minus_history
        [of DEFAULT_MATCH_CONFIG "''Player 1''" None "[ApplyThrow 180, ApplyThrow 180]" 100]
    by simp
qed

section \<open>Statistics\<close>

text \<open>
  C6, as the claim states it, fails: a visit of 50 lies in \<open>[0, 180]\<close> and increments no
  bucket.
\<close>

theorem updateStats_no_bucket_below_65:
  "buckets INITIAL_MATCH_STATS = [0, 0, 0, 0, 0, 0]
   \<and> buckets (updateStats INITIAL_MATCH_STATS 50) = [0, 0, 0, 0, 0, 0]"
  by (simp add: buckets_def updateStats_def INITIAL_MATCH_STATS_def)

text \<open>
  C6, amended.  A visit in \<open>[65, 180]\<close> increments exactly the bucket of its range, by
  one, and leaves the other five as they were; a visit in \<open>[0, 64]\<close> leaves all six as
  they were.
\<close>

theorem updateStats_one_bucket:
  "(65 \<le> v \<and> v \<le> 180 \<longrightarrow>
      (\<exists>i<6. spec_bucket v = Some i
            \<and> buckets (updateStats st v) = (buckets st)[i := buckets st ! i + 1]))
   \<and> (0 \<le> v \<and> v \<le> 64 \<longrightarrow> buckets (updateStats st v) = buckets st)"
  by (auto simp: spec_bucket_def buckets_def updateStats_def)

theorem updateStats_one_bucket_witness:
  "((65::int) \<le> 180 \<and> (180::int) \<le> 180)
   \<and> spec_bucket 180 = Some 5
   \<and> buckets (updateStats INITIAL_MATCH_STATS 180) = [0, 0, 0, 0, 0, 1]
   \<and> ((0::int) \<le> 64 \<and> (64::int) \<le> 64)
   \<and> buckets (updateStats INITIAL_MATCH_STATS 64) = [0, 0, 0, 0, 0, 0]"
  using updateStats_one_bucket [of 180 INITIAL_MATCH_STATS]
        updateStats_one_bucket [of 64 INITIAL_MATCH_STATS]
  by (simp add: spec_bucket_def buckets_def INITIAL_MATCH_STATS_def)


text \<open>
  \<^const>\<open>round2\<close> yields a multiple of \<open>1/100\<close> at distance at most \<open>1/200\<close> of its
  argument.
\<close>

lemma round2_grid: "\<exists>k::int. round2 x = real_of_int k / 100"
  by (auto simp: round2_def)

lemma round2_close: "\<bar>round2 x - x\<bar> \<le> 1 / 200"
proof -
  have "\<bar>real_of_int (round (x * 100)) - x * 100\<bar> \<le> 1 / 2"
    by (rule of_int_round_abs_le)
  then show ?thesis
    by (simp add: round2_def field_simps abs_le_iff)
qed



section \<open>Checkout suggestions\<close>

text \<open>The keys of \<^const>\<open>CHECKOUT_TABLE\<close>.\<close>

lemma suggestion_iff_key:
  "getCheckoutSuggestion s \<noteq> None \<longleftrightarrow> s \<in> set (map fst CHECKOUT_TABLE)"
  by (simp add: getCheckoutSuggestion_def map_of_eq_None_iff)

lemma keys_in_range: "\<forall>k \<in> set (map fst CHECKOUT_TABLE). 2 \<le> k \<and> k \<le> 170"
  by (simp add: CHECKOUT_TABLE_def)

lemma keys_low_even: "\<forall>k \<in> set (map fst CHECKOUT_TABLE). k \<le> 40 \<longrightarrow> even k"
  by (simp add: CHECKOUT_TABLE_def)

lemma keys_valid: "\<forall>k \<in> set (map fst CHECKOUT_TABLE). k \<notin> set INVALID_CHECKOUTS"
  by (simp add: CHECKOUT_TABLE_def INVALID_CHECKOUTS_def)

lemma high_keys:
  "\<forall>s \<in> set [41..170]. s \<in> set INVALID_CHECKOUTS \<or> s = 149 \<or> s \<in> set (map fst CHECKOUT_TABLE)"
  by code_simp

lemma low_keys:
  "\<forall>s \<in> set [2..40]. odd s \<or> s \<in> set (map fst CHECKOUT_TABLE)"
  by code_simp

text \<open>
  C7, as the claim states it, fails: 3 lies in \<open>[2, 170]\<close>, is a score that can be
  finished on a double (\<^const>\<open>VALID_CHECKOUTS\<close> holds it, \<^const>\<open>INVALID_CHECKOUTS\<close> does
  not), and has no suggestion.
\<close>

theorem getSuggestedCheckout_none_for_three:
  "getSuggestedCheckout (new_DartsScoringEngine DEFAULT_MATCH_CONFIG) 3 = None
   \<and> (2::int) \<le> 3 \<and> (3::int) \<le> 170
   \<and> 3 \<in> VALID_CHECKOUTS \<and> 3 \<notin> set INVALID_CHECKOUTS"
  by (simp add: getSuggestedCheckout_def getCheckoutSuggestion_def CHECKOUT_TABLE_def
      VALID_CHECKOUTS_def INVALID_CHECKOUTS_def)

text \<open>
  C7, amended.  \<^verbatim>\<open>getSuggestedCheckout\<close> returns a finish for every even score in
  \<open>[2, 40]\<close> and for every score in \<open>[41, 170]\<close> other than 149 and the seven scores of
  \<^const>\<open>INVALID_CHECKOUTS\<close>; it returns nothing outside \<open>[2, 170]\<close>, for those seven
  scores, and for the odd scores from 3 to 39.  (The table has no entry for 149 either;
  the statement says nothing of it.)
\<close>

theorem getSuggestedCheckout_table_domain:
  "((2 \<le> s \<and> s \<le> 40 \<and> even s)
      \<or> (41 \<le> s \<and> s \<le> 170 \<and> s \<notin> set INVALID_CHECKOUTS \<and> s \<noteq> 149)
     \<longrightarrow> getSuggestedCheckout eng s \<noteq> None)
   \<and> (s < 2 \<or> 170 < s \<or> s \<in> set INVALID_CHECKOUTS \<or> (3 \<le> s \<and> s \<le> 39 \<and> odd s)
     \<longrightarrow> getSuggestedCheckout eng s = None)"
proof (intro conjI impI)
  assume "(2 \<le> s \<and> s \<le> 40 \<and> even s)
      \<or> (41 \<le> s \<and> s \<le> 170 \<and> s \<notin> set INVALID_CHECKOUTS \<and> s \<noteq> 149)"
  then have "s \<in> set (map fst CHECKOUT_TABLE)"
  proof
    assume a: "2 \<le> s \<and> s \<le> 40 \<and> even s"
    then have "s \<in> set [2..40]" unfolding set_upto by simp
    with low_keys a show ?thesis by blast
  next
    assume a: "41 \<le> s \<and> s \<le> 170 \<and> s \<notin> set INVALID_CHECKOUTS \<and> s \<noteq> 149"
    then have "s \<in> set [41..170]" unfolding set_upto by simp
    with high_keys a show ?thesis by blast
  qed
  then show "getSuggestedCheckout eng s \<noteq> None"
    using suggestion_iff_key [of s] by (simp add: getSuggestedCheckout_def)
next
  assume a: "s < 2 \<or> 170 < s \<or> s \<in> set INVALID_CHECKOUTS \<or> (3 \<le> s \<and> s \<le> 39 \<and> odd s)"
  have "s \<notin> set (map fst CHECKOUT_TABLE)"
  proof
    assume k: "s \<in> set (map fst CHECKOUT_TABLE)"
    from k keys_in_range have "2 \<le> s \<and> s \<le> 170" by blast
    moreover from k keys_valid have "s \<notin> set INVALID_CHECKOUTS" by blast
    moreover from k keys_low_even have "s \<le> 40 \<longrightarrow> even s" by blast
    ultimately show False using a by auto
  qed
  then show "getSuggestedCheckout eng s = None"
    using suggestion_iff_key [of s] by (simp add: getSuggestedCheckout_def)
qed

theorem getSuggestedCheckout_table_domain_witness:
  "(41::int) \<le> 170 \<and> (170::int) \<le> 170 \<and> 170 \<notin> set INVALID_CHECKOUTS \<and> (170::int) \<noteq> 149
   \<and> getSuggestedCheckout (new_DartsScoringEngine DEFAULT_MATCH_CONFIG) 170 = Some ''T20 T20 Bull''
   \<and> 169 \<in> set INVALID_CHECKOUTS
   \<and> getSuggestedCheckout (new_DartsScoringEngine DEFAULT_MATCH_CONFIG) 169 = None
   \<and> (170::int) < 171
   \<and> getSuggestedCheckout (new_DartsScoringEngine DEFAULT_MATCH_CONFIG) 171 = None"
proof -
  have a: "getSuggestedCheckout (new_DartsScoringEngine DEFAULT_MATCH_CONFIG) 170
             = Some ''T20 T20 Bull''"
    by (simp add: getSuggestedCheckout_def getCheckoutSuggestion_def CHECKOUT_TABLE_def)
  have i: "169 \<in> set INVALID_CHECKOUTS" "170 \<notin> set INVALID_CHECKOUTS"
    by (simp_all add: INVALID_CHECKOUTS_def)
  show ?thesis
    using a i
      getSuggestedCheckout_table_domain [of 169 "new_DartsScoringEngine DEFAULT_MATCH_CONFIG"]
      getSuggestedCheckout_table_domain [of 171 "new_DartsScoringEngine DEFAULT_MATCH_CONFIG"]
    by simp
qed

section \<open>The bot's visit\<close>

text \<open>
  An ideal leave, when \<^verbatim>\<open>getIdealLeave\<close> yields one, is one of the good leaves, and it
  yields one whenever its draw lies in \<open>[0, 1)\<close>.
\<close>

lemma getIdealLeave_Some:
  assumes "fst (getIdealLeave level rnd n) = Some l"
  shows "8 \<le> l \<and> l \<le> 40"
proof (cases "avg level \<ge> 80")
  case True
  then show ?thesis using assms by (simp add: getIdealLeave_def)
next
  case False
  define i where "i = \<lfloor>rnd n * 7\<rfloor>"
  from False assms have "0 \<le> i \<and> i < 7" and "l = GOOD_LEAVES ! nat i"
    by (simp_all add: getIdealLeave_def Let_def i_def GOOD_LEAVES_def split: if_splits)
  moreover from this have "i \<in> {0, 1, 2, 3, 4, 5, 6}" by auto
  ultimately show ?thesis by (auto simp: GOOD_LEAVES_def)
qed

lemma getIdealLeave_defined:
  assumes "0 \<le> rnd n" "rnd n < 1"
  shows "\<exists>l. fst (getIdealLeave level rnd n) = Some l"
  using assms by (simp add: getIdealLeave_def Let_def GOOD_LEAVES_def floor_less_iff)

text \<open>
  A checkout attempt on a score in \<open>[0, 170]\<close> stays in \<open>[0, 180]\<close>; a scoring visit
  does so on any score.
\<close>

lemma attemptCheckout_range:
  assumes d: "\<forall>k. 0 \<le> rnd k \<and> rnd k < 1"
    and cs: "0 \<le> currentScore" "currentScore \<le> 170"
  shows "\<exists>v. fst (attemptCheckout level currentScore rnd n) = Some v \<and> 0 \<le> v \<and> v \<le> 180"
proof -
  consider (hit) "rnd n < checkoutRate level"
    | (low) "\<not> rnd n < checkoutRate level" "currentScore \<le> 40"
    | (aim) "\<not> rnd n < checkoutRate level" "\<not> currentScore \<le> 40"
    by blast
  then show ?thesis
  proof cases
    case hit
    then show ?thesis using cs by (simp add: attemptCheckout_def Let_def)
  next
    case low
    define variance where "variance = \<lfloor>rnd (Suc n) * 10\<rfloor> - 5"
    have "rnd (Suc n) * 10 < 10" using d by simp
    then have "variance < 5"
      unfolding variance_def by (simp add: floor_less_iff)
    then have "max 0 (currentScore div 2 + variance) \<le> 180"
      using low(2) by simp
    moreover have "0 \<le> max 0 (currentScore div 2 + variance)"
      by simp
    ultimately show ?thesis using low
      unfolding attemptCheckout_def Let_def variance_def by simp
  next
    case aim
    obtain l where "fst (getIdealLeave level rnd (Suc n)) = Some l"
      using getIdealLeave_defined [of rnd "Suc n" level] d by blast
    then obtain n2 where l: "getIdealLeave level rnd (Suc n) = (Some l, n2)"
      by (cases "getIdealLeave level rnd (Suc n)") simp
    show ?thesis
      by (simp add: attemptCheckout_def Let_def aim l)
  qed
qed

lemma generateScoringVisit_range:
  "\<exists>v. fst (generateScoringVisit level currentScore rnd n) = Some v \<and> 0 \<le> v \<and> v \<le> 180"
proof -
  define score1 where "score1 = max 0 (min 180
      (Math_round (avg level + sqrt (- 2 * ln (rnd n)) * cos (2 * pi * rnd (Suc n))
         * consistency level)))"
  have r: "0 \<le> score1" "score1 \<le> 180" by (simp_all add: score1_def)
  have eq: "generateScoringVisit level currentScore rnd n =
      (if currentScore - score1 \<le> 1 \<and> currentScore > 40 then
         (case getIdealLeave level rnd (Suc (Suc n)) of
            (idealLeave, n3) \<Rightarrow>
              (Some (case idealLeave of
                       Some il \<Rightarrow>
                         if currentScore > il then currentScore - il
                         else max 0 (currentScore - 40)
                     | None \<Rightarrow> max 0 (currentScore - 40)),
               n3))
       else (Some score1, Suc (Suc n)))"
    unfolding generateScoringVisit_def Let_def score1_def by (rule refl)
  show ?thesis
  proof (cases "currentScore - score1 \<le> 1 \<and> currentScore > 40")
    case False
    then show ?thesis using r by (simp add: eq False)
  next
    case True
    then have c: "40 < currentScore" "currentScore \<le> 181" using r by auto
    show ?thesis
    proof (cases "fst (getIdealLeave level rnd (Suc (Suc n)))")
      case None
      then obtain n3 where "getIdealLeave level rnd (Suc (Suc n)) = (None, n3)"
        by (cases "getIdealLeave level rnd (Suc (Suc n))") simp
      then show ?thesis using c True
        by (simp add: eq)
    next
      case (Some il)
      have "0 \<le> (if currentScore > il then currentScore - il else max 0 (currentScore - 40))
        \<and> (if currentScore > il then currentScore - il else max 0 (currentScore - 40)) \<le> 180"
        using getIdealLeave_Some [OF Some] c by auto
      moreover obtain n3 where "getIdealLeave level rnd (Suc (Suc n)) = (Some il, n3)"
        using Some by (cases "getIdealLeave level rnd (Suc (Suc n))") simp
      ultimately show ?thesis using True
        by (simp add: eq)
    qed
  qed
qed

text \<open>
  C8, as the claim states it, fails: on a negative current score the bot is eligible
  for a checkout (\<open>- 5 \<le> 170\<close>), and a successful roll returns the current score.
\<close>

theorem generateScore_negative_currentScore:
  "BOT_LEVELS ! 0 \<in> set BOT_LEVELS
   \<and> fst (generateScore (BOT_LEVELS ! 0) (- 5) draws_low 0) = Some (- 5)
   \<and> (- 5 :: int) < 0"
  by (simp add: generateScore_def attemptCheckout_def BOT_LEVELS_def INVALID_CHECKOUTS_def
      draws_low_def)

text \<open>
  C8, amended.  For every level of the catalogue, every current score that is not
  negative and every sequence of draws in \<open>[0, 1)\<close>, \<^verbatim>\<open>generateScore\<close> returns a
  number in \<open>[0, 180]\<close>.
\<close>

theorem generateScore_in_range:
  assumes "level \<in> set BOT_LEVELS"
    and "0 \<le> currentScore"
    and "\<forall>k. 0 \<le> rnd k \<and> rnd k < 1"
  shows "\<exists>v. fst (generateScore level currentScore rnd n) = Some v \<and> 0 \<le> v \<and> v \<le> 180"
proof (cases "currentScore \<le> 170 \<and> currentScore \<notin> set INVALID_CHECKOUTS")
  case True
  then show ?thesis
    using attemptCheckout_range [OF assms(3) assms(2), of level n]
    by (simp add: generateScore_def True)
next
  case False
  show ?thesis
    using generateScoringVisit_range [of level currentScore rnd n]
    by (simp add: generateScore_def False)
qed

theorem generateScore_in_range_witness:
  "BOT_LEVELS ! 0 \<in> set BOT_LEVELS
   \<and> fst (generateScore (BOT_LEVELS ! 0) 30 draws_high 0) = Some 19
   \<and> (\<exists>v. fst (generateScore (BOT_LEVELS ! 0) 30 draws_high 0) = Some v \<and> 0 \<le> v \<and> v \<le> 180)"
proof -
  have l: "BOT_LEVELS ! 0 \<in> set BOT_LEVELS"
    by (simp add: BOT_LEVELS_def)
  have d: "\<forall>k. 0 \<le> draws_high k \<and> draws_high k < 1"
    by (simp add: draws_high_def)
  have e: "fst (generateScore (BOT_LEVELS ! 0) 30 draws_high 0) = Some 19"
    by (simp add: generateScore_def attemptCheckout_def BOT_LEVELS_def INVALID_CHECKOUTS_def
        draws_high_def)
  show ?thesis
    using l e generateScore_in_range [OF l _ d, of 30 0] by simp
qed

end
